theory Spec2Isabelle
  imports Main "HOL-Library.Word"
begin

unbundle bit_operations_syntax

section \<open>The i2csens driver: registers, bus and register map\<close>

text \<open>
  The driver (\<^verbatim>\<open>i2csensdrv.c\<close>) talks to a three-register I2C sensor through the
  kernel's register-map layer. C's \<^verbatim>\<open>unsigned int\<close> is \<open>32 word\<close>, and so is
  \<^verbatim>\<open>int\<close> (read through \<open>sint\<close> where its sign matters); a status or \<^verbatim>\<open>ssize_t\<close>
  return value, which is only compared with zero or handed back, is an \<open>int\<close>.
\<close>

subsection \<open>Constants of the source\<close>

definition I2CSENS_REG_ID :: "32 word" where
  "I2CSENS_REG_ID = 0"

definition I2CSENS_REG_CTRL :: "32 word" where
  "I2CSENS_REG_CTRL = 1"

definition I2CSENS_REG_DATA :: "32 word" where
  "I2CSENS_REG_DATA = 2"

definition CTRL_EN_MASK :: "32 word" where
  "CTRL_EN_MASK = 0x1"

definition I2CSENS_ID :: "32 word" where
  "I2CSENS_ID = 0x5A"

text \<open>The kernel's error numbers the driver returns (negated) or receives.\<close>

definition EIO :: nat where
  "EIO = 5"

definition ENOMEM :: nat where
  "ENOMEM = 12"

definition ENODEV :: nat where
  "ENODEV = 19"

subsection \<open>The bus transport and the device behind it\<close>

text \<open>
  Modelled from the spec: the bus transport is outside the source; the spec (section 6)
  asks of it \<^verbatim>\<open>transaction(address, is_write, value?) -> Result<u8, BusError>\<close>.
  The device is a byte store indexed by register address. A transfer consumes the next
  entry of \<open>pending\<close>, the outcomes the transport is going to report: \<open>0\<close> (or no entry
  left) is success, a positive entry is the error number of a failed transfer. Every
  transfer, failed or not, is appended to \<open>xlog\<close> with its outcome; only a successful
  write changes a register.
\<close>

datatype xfer = XRead "32 word" | XWrite "32 word" "8 word"

record bus =
  regs :: "32 word \<Rightarrow> 8 word"
  pending :: "nat list"
  xlog :: "(xfer \<times> nat) list"

definition next_fault :: "bus \<Rightarrow> nat" where
  "next_fault b = (case pending b of [] \<Rightarrow> 0 | e # _ \<Rightarrow> e)"

definition transaction :: "xfer \<Rightarrow> bus \<Rightarrow> (nat + 8 word) \<times> bus" where
  "transaction x b =
     (let e = next_fault b;
          b1 = b\<lparr>pending := tl (pending b), xlog := xlog b @ [(x, e)]\<rparr>
      in if e \<noteq> 0 then (Inl e, b1)
         else (case x of
                 XRead a \<Rightarrow> (Inr (regs b1 a), b1)
               | XWrite a v \<Rightarrow> (Inr v, b1\<lparr>regs := (regs b1)(a := v)\<rparr>)))"

text \<open>The transfers a piece of code issued, between the bus before and the bus after.\<close>

definition issued :: "bus \<Rightarrow> bus \<Rightarrow> (xfer \<times> nat) list" where
  "issued b b' = drop (length (xlog b)) (xlog b')"

fun is_write :: "xfer \<Rightarrow> bool" where
  "is_write (XRead a) = False"
| "is_write (XWrite a v) = True"

subsection \<open>The register map\<close>

text \<open>\<^verbatim>\<open>i2csens_regmap_is_writeable\<close>; its \<^verbatim>\<open>dev\<close> argument is unused.\<close>

definition i2csens_regmap_is_writeable :: "32 word \<Rightarrow> bool" where
  "i2csens_regmap_is_writeable reg = (reg = I2CSENS_REG_CTRL)"

datatype regcache_type = REGCACHE_NONE | REGCACHE_OTHER

record regmap_config =
  reg_bits :: nat
  val_bits :: nat
  cache_type :: regcache_type
  max_register :: "32 word"
  writeable_reg :: "32 word \<Rightarrow> bool"

definition i2csens_regmap_config :: regmap_config where
  "i2csens_regmap_config =
     \<lparr>reg_bits = 8, val_bits = 8, cache_type = REGCACHE_NONE,
      max_register = I2CSENS_REG_DATA, writeable_reg = i2csens_regmap_is_writeable\<rparr>"

datatype rm_error = BusError nat | OutOfRange | NotWritable

text \<open>
  The number of addressable registers a configuration declares: addresses
  \<open>0 .. max_register\<close>.
\<close>

definition address_space_size :: "regmap_config \<Rightarrow> nat" where
  "address_space_size cfg = Suc (unat (max_register cfg))"

text \<open>
  Modelled from the spec: \<^verbatim>\<open>regmap_read\<close> is the kernel's, not in the source. The spec
  (section 4.1): \<^verbatim>\<open>read(address)\<close> fails with \<^verbatim>\<open>OutOfRange\<close> if
  \<^verbatim>\<open>address >= address_space_size\<close>, fails with \<^verbatim>\<open>BusError\<close> if the transport reports
  a failure; it keeps no cache, so every read is a fresh bus transaction.
\<close>

definition regmap_read :: "regmap_config \<Rightarrow> 32 word \<Rightarrow> bus \<Rightarrow> (rm_error + 8 word) \<times> bus" where
  "regmap_read cfg reg b =
     (if address_space_size cfg \<le> unat reg then (Inl OutOfRange, b)
      else (case transaction (XRead reg) b of
              (Inl e, b1) \<Rightarrow> (Inl (BusError e), b1)
            | (Inr v, b1) \<Rightarrow> (Inr v, b1)))"

text \<open>
  Modelled from the spec: \<^verbatim>\<open>regmap_write\<close> is the kernel's, not in the source. The spec
  (sections 4.1 and 8): \<^verbatim>\<open>write(address, value: u8)\<close> fails with \<^verbatim>\<open>OutOfRange\<close> for an
  address outside the address space, with \<^verbatim>\<open>NotWritable\<close> if the writability predicate
  is false, with \<^verbatim>\<open>BusError\<close> on a transport failure; otherwise it is a pass-through
  of the value to the bus.
\<close>

definition regmap_write :: "regmap_config \<Rightarrow> 32 word \<Rightarrow> 8 word \<Rightarrow> bus \<Rightarrow> (rm_error + unit) \<times> bus" where
  "regmap_write cfg reg val b =
     (if address_space_size cfg \<le> unat reg then (Inl OutOfRange, b)
      else if \<not> writeable_reg cfg reg then (Inl NotWritable, b)
      else (case transaction (XWrite reg val) b of
              (Inl e, b1) \<Rightarrow> (Inl (BusError e), b1)
            | (Inr v, b1) \<Rightarrow> (Inr (), b1)))"

text \<open>
  The \<^verbatim>\<open>int\<close> the C functions \<^verbatim>\<open>regmap_read\<close> and \<^verbatim>\<open>regmap_write\<close> return: zero on
  success, the negated error number of the transport on a bus failure, and \<^verbatim>\<open>-EIO\<close>
  for a register the map refuses.
\<close>

fun rc :: "rm_error + 'a \<Rightarrow> int" where
  "rc (Inr v) = 0"
| "rc (Inl (BusError e)) = - int e"
| "rc (Inl OutOfRange) = - int EIO"
| "rc (Inl NotWritable) = - int EIO"

text \<open>
  The out-parameter \<^verbatim>\<open>unsigned int *val\<close> of \<^verbatim>\<open>regmap_read\<close>: written (the byte,
  zero-extended) on success only; on failure the caller's variable keeps what it held.
\<close>

fun outval :: "32 word \<Rightarrow> rm_error + 8 word \<Rightarrow> 32 word" where
  "outval old (Inr v) = ucast v"
| "outval old (Inl e) = old"

section \<open>Text conversions of the kernel library\<close>

definition digit_char :: "nat \<Rightarrow> char" where
  "digit_char n = ''0123456789'' ! (n mod 10)"

fun show_nat :: "nat \<Rightarrow> string" where
  "show_nat n = (if n < 10 then [digit_char n] else show_nat (n div 10) @ [digit_char n])"

declare show_nat.simps [simp del]

definition show_int :: "int \<Rightarrow> string" where
  "show_int i = (if i < 0 then CHR ''-'' # show_nat (nat (- i)) else show_nat (nat i))"

text \<open>
  \<^verbatim>\<open>sprintf(buf, "%d\n", x)\<close> for an \<^verbatim>\<open>int\<close> (or an \<^verbatim>\<open>unsigned int\<close> read as one):
  the text written to \<^verbatim>\<open>buf\<close> and the number of characters, which is what it returns.
\<close>

definition sprintf_d_nl :: "32 word \<Rightarrow> int \<times> string" where
  "sprintf_d_nl x = (let s = show_int (sint x) @ [CHR 0x0A] in (int (length s), s))"

definition isspace :: "char \<Rightarrow> bool" where
  "isspace c = (c \<in> set [CHR 0x20, CHR 0x09, CHR 0x0A, CHR 0x0B, CHR 0x0C, CHR 0x0D, CHR 0xA0])"

definition isdigit :: "char \<Rightarrow> bool" where
  "isdigit c = (c \<in> set ''0123456789'')"

definition digit_val :: "char \<Rightarrow> nat" where
  "digit_val c = of_char c - 48"

definition strtoull :: "string \<Rightarrow> nat" where
  "strtoull ds = foldl (\<lambda>acc c. acc * 10 + digit_val c) 0 (takeWhile isdigit ds)"

text \<open>
  \<^verbatim>\<open>sscanf(buf, "%d", &enable)\<close> of the kernel: white space is skipped, a minus sign is
  accepted, at least one decimal digit is needed; the digits are read without an
  overflow check and the result is cut to the 32 bits of an \<^verbatim>\<open>int\<close>. \<open>None\<close> when
  nothing is converted: the variable is then not written.
\<close>

definition sscanf_d :: "string \<Rightarrow> 32 word option" where
  "sscanf_d buf =
     (let str = dropWhile isspace buf;
          neg = (str \<noteq> [] \<and> hd str = CHR ''-'');
          ds = (if neg then tl str else str)
      in if ds = [] \<or> \<not> isdigit (hd ds) then None
         else Some (if neg then - of_nat (strtoull ds) else of_nat (strtoull ds)))"

section \<open>The sysfs attributes\<close>

text \<open>\<^verbatim>\<open>struct i2csens\<close>: the register map of the device, as configured at probe.\<close>

record i2csens =
  regmap :: regmap_config

text \<open>
  \<^verbatim>\<open>enable_show\<close>. \<open>enable0\<close> is the indeterminate content of the uninitialised local
  \<^verbatim>\<open>enable\<close>, which the code reads when \<^verbatim>\<open>regmap_read\<close> fails: \<^verbatim>\<open>err\<close> is assigned
  and never tested. The result is the return value and the text put in \<^verbatim>\<open>buf\<close>.
\<close>

definition enable_show :: "i2csens \<Rightarrow> 32 word \<Rightarrow> bus \<Rightarrow> (int \<times> string) \<times> bus" where
  "enable_show data enable0 b =
     (let (r, b1) = regmap_read (regmap data) I2CSENS_REG_CTRL b;
          err = rc r;
          enable = outval enable0 r;
          enable = enable AND CTRL_EN_MASK
      in (sprintf_d_nl (if enable \<noteq> 0 then 1 else 0), b1))"

text \<open>
  \<^verbatim>\<open>enable_store\<close>. \<open>ctrl0\<close> and \<open>enable0\<close> are the indeterminate contents of the
  uninitialised locals \<^verbatim>\<open>ctrl\<close> and \<^verbatim>\<open>enable\<close>. The status of the read is overwritten
  by the status of the write without being tested. \<^verbatim>\<open>regmap_write\<close> sends the low
  \<^verbatim>\<open>val_bits = 8\<close> bits of \<^verbatim>\<open>ctrl\<close>.
\<close>

definition enable_store :: "i2csens \<Rightarrow> 32 word \<Rightarrow> 32 word \<Rightarrow> string \<Rightarrow> nat \<Rightarrow> bus \<Rightarrow> int \<times> bus" where
  "enable_store data ctrl0 enable0 buf count b =
     (let (r, b1) = regmap_read (regmap data) I2CSENS_REG_CTRL b;
          err = rc r;
          ctrl = outval ctrl0 r;
          enable = (case sscanf_d buf of Some v \<Rightarrow> v | None \<Rightarrow> enable0);
          ctrl = (if enable = 0 then ctrl AND NOT CTRL_EN_MASK else ctrl OR CTRL_EN_MASK);
          (w, b2) = regmap_write (regmap data) I2CSENS_REG_CTRL (ucast ctrl) b1;
          err = rc w
      in if err < 0 then (err, b2) else (int count, b2))"

text \<open>
  \<^verbatim>\<open>data_show\<close>. \<open>temperature0\<close> is the indeterminate content of the uninitialised
  local \<^verbatim>\<open>temperature\<close>; the arithmetic is that of a 32-bit \<^verbatim>\<open>unsigned int\<close>.
\<close>

definition data_show :: "i2csens \<Rightarrow> 32 word \<Rightarrow> bus \<Rightarrow> (int \<times> string) \<times> bus" where
  "data_show data temperature0 b =
     (let (r, b1) = regmap_read (regmap data) I2CSENS_REG_DATA b;
          err = rc r;
          temperature = outval temperature0 r;
          temperature = temperature * 1000;
          temperature = drop_bit 1 temperature
      in (sprintf_d_nl temperature, b1))"

section \<open>Probe\<close>

text \<open>
  What the kernel answers during a probe: whether \<^verbatim>\<open>devm_kzalloc\<close> returns memory, the
  error number of \<^verbatim>\<open>devm_regmap_init_i2c\<close> (\<open>0\<close>: a register map is returned) and the
  status of \<^verbatim>\<open>sysfs_create_group\<close>.
\<close>

record probe_env =
  kzalloc_ok :: bool
  regmap_init_errno :: nat
  sysfs_status :: int

text \<open>
  What a probe leaves: its return value; the pointer \<^verbatim>\<open>i2c_set_clientdata\<close> stored
  (line 152), which no later return of probe clears; whether the attribute group
  (\<^verbatim>\<open>enable\<close>, \<^verbatim>\<open>data\<close>) is registered; and the kernel log lines (without their final
  newline). The client data is \<open>None\<close> when probe returned before line 152,
  \<open>Some (Inl e)\<close> when the structure's \<^verbatim>\<open>regmap\<close> field holds the error pointer of a
  failed \<^verbatim>\<open>devm_regmap_init_i2c\<close>, and \<open>Some (Inr data)\<close> when it holds a register map.
\<close>

record probe_out =
  ret :: int
  clientdata :: "(nat + i2csens) option"
  sysfs_group :: bool
  klog :: "string list"

definition i2csens_probe :: "probe_env \<Rightarrow> 32 word \<Rightarrow> bus \<Rightarrow> probe_out \<times> bus" where
  "i2csens_probe env regval0 b =
     (if \<not> kzalloc_ok env then
        (\<lparr>ret = - int ENOMEM, clientdata = None, sysfs_group = False, klog = []\<rparr>, b)
      else if regmap_init_errno env \<noteq> 0 then
        (\<lparr>ret = - int (regmap_init_errno env),
          clientdata = Some (Inl (regmap_init_errno env)), sysfs_group = False,
          klog = [''failed to allocate register map'']\<rparr>, b)
      else
        (let data = \<lparr>regmap = i2csens_regmap_config\<rparr>;
             (r, b1) = regmap_read (regmap data) I2CSENS_REG_ID b;
             status = rc r;
             regval = outval regval0 r
         in if status < 0 then
              (\<lparr>ret = status, clientdata = Some (Inr data), sysfs_group = False,
                klog = [''error reading ID register'']\<rparr>, b1)
            else if regval \<noteq> I2CSENS_ID then
              (\<lparr>ret = - int ENODEV, clientdata = Some (Inr data), sysfs_group = False,
                klog = [''unexpected ID'']\<rparr>, b1)
            else
              (let status = sysfs_status env
               in if status \<noteq> 0 then
                    (\<lparr>ret = 0, clientdata = Some (Inr data), sysfs_group = False,
                      klog = [''Cannot create sysfs'']\<rparr>, b1)
                  else
                    (\<lparr>ret = 0, clientdata = Some (Inr data), sysfs_group = True,
                      klog = []\<rparr>, b1))))"

section \<open>Basic facts\<close>

subsection \<open>Bytes inside 32-bit variables\<close>

lemma u8_bound: "unat (s :: 8 word) < 256"
  using unsigned_less [of s, where ?'a = nat] by simp

lemma unat_ucast_u8: "unat (ucast (s :: 8 word) :: 32 word) = unat s"
  using u8_bound [of s] by (simp add: unsigned_ucast_eq take_bit_nat_eq_self)

lemma ucast_u8_eq_iff: "(ucast (s :: 8 word) :: 32 word) = ucast t \<longleftrightarrow> s = t"
  by (metis unat_ucast_u8 word_unat_eq_iff)

lemma ucast_is_id: "(ucast (s :: 8 word) :: 32 word) = I2CSENS_ID \<longleftrightarrow> s = 0x5A"
proof -
  have "(ucast (0x5A :: 8 word) :: 32 word) = 0x5A" by simp
  thus ?thesis unfolding I2CSENS_ID_def by (metis ucast_u8_eq_iff)
qed

subsection \<open>The register map over the bus\<close>

lemma address_space_size_i2csens: "address_space_size i2csens_regmap_config = 3"
  by (simp add: address_space_size_def i2csens_regmap_config_def I2CSENS_REG_DATA_def)

lemma writeable_reg_i2csens: "writeable_reg i2csens_regmap_config = i2csens_regmap_is_writeable"
  by (simp add: i2csens_regmap_config_def)

lemma transaction_read:
  "transaction (XRead a) b =
     (if next_fault b = 0 then Inr (regs b a) else Inl (next_fault b),
      b\<lparr>pending := tl (pending b), xlog := xlog b @ [(XRead a, next_fault b)]\<rparr>)"
  by (simp add: transaction_def Let_def)

lemma transaction_write:
  "transaction (XWrite a v) b =
     (if next_fault b = 0 then Inr v else Inl (next_fault b),
      b\<lparr>pending := tl (pending b), xlog := xlog b @ [(XWrite a v, next_fault b)],
        regs := (if next_fault b = 0 then (regs b)(a := v) else regs b)\<rparr>)"
  by (simp add: transaction_def Let_def)

lemma regmap_read_in_range:
  "unat reg < 3 \<Longrightarrow>
   regmap_read i2csens_regmap_config reg b =
     (if next_fault b = 0 then Inr (regs b reg) else Inl (BusError (next_fault b)),
      b\<lparr>pending := tl (pending b), xlog := xlog b @ [(XRead reg, next_fault b)]\<rparr>)"
  by (simp add: regmap_read_def transaction_read address_space_size_i2csens)

lemma regmap_write_ctrl:
  "regmap_write i2csens_regmap_config I2CSENS_REG_CTRL v b =
     (if next_fault b = 0 then Inr () else Inl (BusError (next_fault b)),
      b\<lparr>pending := tl (pending b),
        xlog := xlog b @ [(XWrite I2CSENS_REG_CTRL v, next_fault b)],
        regs := (if next_fault b = 0 then (regs b)(I2CSENS_REG_CTRL := v) else regs b)\<rparr>)"
  by (simp add: regmap_write_def transaction_write address_space_size_i2csens
      writeable_reg_i2csens i2csens_regmap_is_writeable_def I2CSENS_REG_CTRL_def)

lemma reg_ranges:
  "unat I2CSENS_REG_ID < 3" "unat I2CSENS_REG_CTRL < 3" "unat I2CSENS_REG_DATA < 3"
  by (simp_all add: I2CSENS_REG_ID_def I2CSENS_REG_CTRL_def I2CSENS_REG_DATA_def)

lemmas regmap_read_id = regmap_read_in_range [OF reg_ranges(1)]
lemmas regmap_read_ctrl = regmap_read_in_range [OF reg_ranges(2)]
lemmas regmap_read_data = regmap_read_in_range [OF reg_ranges(3)]

lemma issued_self: "issued b b = []"
  by (simp add: issued_def)

subsection \<open>The scaling of the sample\<close>

lemma shift_conv: "unat (drop_bit 1 (ucast (s :: 8 word) * 1000 :: 32 word)) = unat s * 500"
proof -
  have b: "unat s < 256" by (rule u8_bound)
  have "unat (ucast s * 1000 :: 32 word) = unat s * 1000"
    using b by (simp add: unat_word_ariths unat_ucast_u8)
  moreover have "unat (drop_bit 1 (ucast s * 1000 :: 32 word)) = drop_bit 1 (unat (ucast s * 1000 :: 32 word))"
    by (rule unat_drop_bit_eq)
  moreover have "drop_bit 1 (unat s * 1000) = unat s * 1000 div 2"
    by (simp only: drop_bit_eq_div power_one_right)
  ultimately show ?thesis by simp
qed

lemma shift_conv_sint: "sint (drop_bit 1 (ucast (s :: 8 word) * 1000 :: 32 word)) = int (unat s * 500)"
proof -
  let ?w = "drop_bit 1 (ucast s * 1000 :: 32 word)"
  define k where "k = int (unat s * 500)"
  have u: "uint ?w = k" unfolding k_def using shift_conv [of s] by (metis of_nat_unat)
  have "unat s * 500 < 2 ^ 31" using u8_bound [of s] by simp
  hence "k < 2 ^ 31" unfolding k_def by (metis of_nat_less_iff of_nat_numeral of_nat_power)
  moreover have "0 \<le> k" unfolding k_def by simp
  ultimately have "signed_take_bit 31 k = k"
    by (intro signed_take_bit_int_eq_self) simp_all
  thus ?thesis unfolding k_def [symmetric] using u
    by (simp only: sint_uint) simp
qed

lemma data_show_ok:
  assumes "next_fault b = 0"
  shows "data_show \<lparr>regmap = i2csens_regmap_config\<rparr> t0 b =
           ((int (length (show_nat (unat (regs b I2CSENS_REG_DATA) * 500))) + 1,
             show_nat (unat (regs b I2CSENS_REG_DATA) * 500) @ [CHR 0x0A]),
            b\<lparr>pending := tl (pending b), xlog := xlog b @ [(XRead I2CSENS_REG_DATA, 0)]\<rparr>)"
  using assms
  by (simp add: data_show_def regmap_read_data sprintf_d_nl_def show_int_def Let_def
      shift_conv_sint [unfolded One_nat_def] nat_mult_distrib)

subsection \<open>The enable bit and the attribute functions on a working bus\<close>

lemma clear_en_u8: "(ucast ((ucast (c :: 8 word) :: 32 word) AND NOT CTRL_EN_MASK) :: 8 word) = c AND NOT 1"
  by (rule bit_word_eqI) (auto simp add: bit_simps CTRL_EN_MASK_def)

lemma set_en_u8: "(ucast ((ucast (c :: 8 word) :: 32 word) OR CTRL_EN_MASK) :: 8 word) = c OR 1"
  by (rule bit_word_eqI) (auto simp add: bit_simps CTRL_EN_MASK_def)

lemma en_mask_u8: "(ucast (c :: 8 word) :: 32 word) AND CTRL_EN_MASK = 0 \<longleftrightarrow> \<not> bit c 0"
proof -
  have "(ucast c :: 32 word) AND 1 = (if bit c 0 then 1 else 0)"
    by (rule bit_word_eqI) (auto simp add: bit_simps intro: gr0I)
  thus ?thesis by (simp add: CTRL_EN_MASK_def)
qed

lemma bits_clear_en: "bit ((c :: 8 word) AND NOT 1) n \<longleftrightarrow> bit c n \<and> 0 < n"
  by (auto simp add: bit_simps dest: bit_imp_le_length)

lemma bits_set_en: "bit ((c :: 8 word) OR 1) n \<longleftrightarrow> bit c n \<or> n = 0"
  by (auto simp add: bit_simps)

lemma sprintf_flag: "sprintf_d_nl 0 = (2, ''0'' @ [CHR 0x0A])" "sprintf_d_nl 1 = (2, ''1'' @ [CHR 0x0A])"
  by (simp_all add: sprintf_d_nl_def show_int_def show_nat.simps digit_char_def)

lemma enable_show_ok:
  assumes "next_fault b = 0"
  shows "enable_show \<lparr>regmap = i2csens_regmap_config\<rparr> e0 b =
           ((2, (if bit (regs b I2CSENS_REG_CTRL) 0 then ''1'' else ''0'') @ [CHR 0x0A]),
            b\<lparr>pending := tl (pending b), xlog := xlog b @ [(XRead I2CSENS_REG_CTRL, 0)]\<rparr>)"
  using assms
  by (simp add: enable_show_def regmap_read_ctrl Let_def en_mask_u8 sprintf_flag)

lemma enable_store_ok:
  assumes "next_fault b = 0" and "sscanf_d buf = Some v"
  shows "enable_store \<lparr>regmap = i2csens_regmap_config\<rparr> ctrl0 enable0 buf count b =
     (let c' = (if v = 0 then regs b I2CSENS_REG_CTRL AND NOT 1 else regs b I2CSENS_REG_CTRL OR 1);
          e = next_fault (b\<lparr>pending := tl (pending b)\<rparr>)
      in (if e = 0 then int count else - int e,
          b\<lparr>pending := tl (tl (pending b)),
            xlog := xlog b @ [(XRead I2CSENS_REG_CTRL, 0), (XWrite I2CSENS_REG_CTRL c', e)],
            regs := (if e = 0 then (regs b)(I2CSENS_REG_CTRL := c') else regs b)\<rparr>))"
  using assms
  by (simp add: enable_store_def regmap_read_ctrl regmap_write_ctrl Let_def clear_en_u8 set_en_u8
      next_fault_def)

lemma sscanf_d_flags: "sscanf_d ''1'' = Some 1" "sscanf_d ''0'' = Some 0"
  by (simp_all add: sscanf_d_def isspace_def isdigit_def strtoull_def digit_val_def)

subsection \<open>The two ways through probe\<close>

lemma probe_reaches_read:
  assumes "kzalloc_ok env" and "regmap_init_errno env = 0"
  shows "i2csens_probe env junk b =
     (let b1 = b\<lparr>pending := tl (pending b), xlog := xlog b @ [(XRead I2CSENS_REG_ID, next_fault b)]\<rparr>;
          data = \<lparr>regmap = i2csens_regmap_config\<rparr>
      in if next_fault b \<noteq> 0 then
           (\<lparr>ret = - int (next_fault b), clientdata = Some (Inr data), sysfs_group = False,
             klog = [''error reading ID register'']\<rparr>, b1)
         else if regs b I2CSENS_REG_ID \<noteq> 0x5A then
           (\<lparr>ret = - int ENODEV, clientdata = Some (Inr data), sysfs_group = False,
             klog = [''unexpected ID'']\<rparr>, b1)
         else if sysfs_status env \<noteq> 0 then
           (\<lparr>ret = 0, clientdata = Some (Inr data), sysfs_group = False,
             klog = [''Cannot create sysfs'']\<rparr>, b1)
         else
           (\<lparr>ret = 0, clientdata = Some (Inr data), sysfs_group = True, klog = []\<rparr>, b1))"
  using assms
  by (simp add: i2csens_probe_def regmap_read_id Let_def ucast_is_id)

lemma probe_no_alloc:
  assumes "\<not> kzalloc_ok env \<or> regmap_init_errno env \<noteq> 0"
  shows "snd (i2csens_probe env junk b) = b"
    and "ret (fst (i2csens_probe env junk b)) < 0"
    and "\<not> sysfs_group (fst (i2csens_probe env junk b))"
    and "clientdata (fst (i2csens_probe env junk b)) =
           (if kzalloc_ok env then Some (Inl (regmap_init_errno env)) else None)"
  using assms by (auto simp add: i2csens_probe_def ENOMEM_def)

section \<open>The register map of the device\<close>

text \<open>
  Claim C6. Whatever the value and whatever the state of the transport, a register-map
  write to the ID register (address 0) or to the DATA register (address 2) fails with
  the not-writable error and leaves the bus untouched: the writability predicate of the
  driver's configuration holds at the CTRL address only.
\<close>

theorem regmap_write_readonly_registers:
  "regmap_write i2csens_regmap_config I2CSENS_REG_ID v b = (Inl NotWritable, b) \<and>
   regmap_write i2csens_regmap_config I2CSENS_REG_DATA v b = (Inl NotWritable, b) \<and>
   (writeable_reg i2csens_regmap_config reg \<longleftrightarrow> reg = I2CSENS_REG_CTRL)"
  by (simp add: regmap_write_def address_space_size_i2csens writeable_reg_i2csens
      i2csens_regmap_is_writeable_def I2CSENS_REG_ID_def I2CSENS_REG_DATA_def
      I2CSENS_REG_CTRL_def)

text \<open>
  Claim C7. The address space has three registers (ID, CTRL, DATA). For every address
  \<open>a \<ge> 3\<close>, a read of \<open>a\<close> and a write of any value to \<open>a\<close> fail with the
  out-of-range error, and no bus transaction is made: the bus is returned as it was.
\<close>

theorem regmap_out_of_range:
  assumes "3 \<le> a"
  shows "address_space_size i2csens_regmap_config = 3 \<and>
         regmap_read i2csens_regmap_config a b = (Inl OutOfRange, b) \<and>
         regmap_write i2csens_regmap_config a v b = (Inl OutOfRange, b)"
proof -
  have "3 \<le> unat a" using assms by (simp add: word_le_nat_alt)
  thus ?thesis
    by (simp add: regmap_read_def regmap_write_def address_space_size_i2csens)
qed

theorem regmap_out_of_range_witness:
  "(3 :: 32 word) \<le> 200 \<and>
   regmap_read i2csens_regmap_config 200 \<lparr>regs = \<lambda>a. 0, pending = [], xlog = []\<rparr> =
     (Inl OutOfRange, \<lparr>regs = \<lambda>a. 0, pending = [], xlog = []\<rparr>) \<and>
   regmap_write i2csens_regmap_config 200 7 \<lparr>regs = \<lambda>a. 0, pending = [], xlog = []\<rparr> =
     (Inl OutOfRange, \<lparr>regs = \<lambda>a. 0, pending = [], xlog = []\<rparr>)"
proof -
  have h: "(3 :: 32 word) \<le> 200" by simp
  show ?thesis using h regmap_out_of_range [OF h] by simp
qed

section \<open>The attributes\<close>

text \<open>
  Claim C2. For every 8-bit sample \<open>s\<close> in the DATA register, a \<^verbatim>\<open>data\<close> get whose bus
  read succeeds puts in the buffer the decimal text of \<open>(s * 1000) >> 1\<close> followed by a
  newline, and returns its length. In the 32-bit arithmetic of the code the product does
  not wrap, the shift is the truncating division by two, and the value is \<open>s * 500\<close>;
  a sample of 100 gives 50000 and a sample of 255 gives 127500.
\<close>

theorem data_show_value:
  assumes "next_fault b = 0" and "regs b I2CSENS_REG_DATA = s"
  shows "fst (data_show \<lparr>regmap = i2csens_regmap_config\<rparr> t0 b) =
           (int (length (show_nat (unat s * 500))) + 1, show_nat (unat s * 500) @ [CHR 0x0A]) \<and>
         unat (drop_bit 1 (ucast s * 1000 :: 32 word)) = unat s * 1000 div 2 \<and>
         unat s * 1000 div 2 = unat s * 500 \<and>
         unat (ucast s * 1000 :: 32 word) = unat s * 1000 \<and>
         unat s * 1000 < 2 ^ 32 \<and>
         (s = 100 \<longrightarrow> snd (fst (data_show \<lparr>regmap = i2csens_regmap_config\<rparr> t0 b)) = ''50000'' @ [CHR 0x0A]) \<and>
         (s = 255 \<longrightarrow> snd (fst (data_show \<lparr>regmap = i2csens_regmap_config\<rparr> t0 b)) = ''127500'' @ [CHR 0x0A])"
proof -
  have b: "unat s < 256" by (rule u8_bound)
  have 1: "fst (data_show \<lparr>regmap = i2csens_regmap_config\<rparr> t0 b) =
           (int (length (show_nat (unat s * 500))) + 1, show_nat (unat s * 500) @ [CHR 0x0A])"
    using assms by (simp add: data_show_ok)
  have 2: "unat (drop_bit 1 (ucast s * 1000 :: 32 word)) = unat s * 1000 div 2"
    using shift_conv [of s] by simp
  have 3: "unat (ucast s * 1000 :: 32 word) = unat s * 1000"
    using b by (simp add: unat_word_ariths unat_ucast_u8)
  have 4: "unat s * 1000 < 2 ^ 32" using b by simp
  have 5: "show_nat 50000 = ''50000''" by (simp add: show_nat.simps digit_char_def)
  have 6: "show_nat 127500 = ''127500''" by (simp add: show_nat.simps digit_char_def)
  have 7: "s = 100 \<longrightarrow> snd (fst (data_show \<lparr>regmap = i2csens_regmap_config\<rparr> t0 b)) = ''50000'' @ [CHR 0x0A]"
    using 1 5 by simp
  have 8: "s = 255 \<longrightarrow> snd (fst (data_show \<lparr>regmap = i2csens_regmap_config\<rparr> t0 b)) = ''127500'' @ [CHR 0x0A]"
    using 1 6 by simp
  have 9: "unat s * 1000 div 2 = unat s * 500" by simp
  from 1 2 3 4 7 8 9 show ?thesis by blast
qed

theorem data_show_value_witness:
  "next_fault \<lparr>regs = (\<lambda>a. 0)(2 := 100), pending = [], xlog = []\<rparr> = 0 \<and>
   data_show \<lparr>regmap = i2csens_regmap_config\<rparr> 0
       \<lparr>regs = (\<lambda>a. 0)(2 := 100), pending = [], xlog = []\<rparr> =
     ((6, ''50000'' @ [CHR 0x0A]),
      \<lparr>regs = (\<lambda>a. 0)(2 := 100), pending = [], xlog = [(XRead 2, 0)]\<rparr>)"
proof -
  let ?b = "\<lparr>regs = (\<lambda>a. 0)(2 := 100 :: 8 word), pending = [], xlog = []\<rparr>"
  have h1: "next_fault ?b = 0" by (simp add: next_fault_def)
  have h2: "regs ?b I2CSENS_REG_DATA = 100" by (simp add: I2CSENS_REG_DATA_def)
  have sn: "show_nat 50000 = ''50000''"
    by (simp add: show_nat.simps digit_char_def)
  have "fst (data_show \<lparr>regmap = i2csens_regmap_config\<rparr> 0 ?b) = (6, ''50000'' @ [CHR 0x0A])"
    using data_show_value [OF h1 h2, of 0] by (simp add: sn)
  moreover have "snd (data_show \<lparr>regmap = i2csens_regmap_config\<rparr> 0 ?b) =
      \<lparr>regs = (\<lambda>a. 0)(2 := 100), pending = [], xlog = [(XRead 2, 0)]\<rparr>"
    by (simp add: data_show_ok [OF h1] I2CSENS_REG_DATA_def)
  ultimately show ?thesis using h1 by (simp add: prod_eq_iff)
qed

text \<open>
  Claim C3. For every CTRL value \<open>c\<close> and every input that parses to an integer \<open>v\<close>,
  \<^verbatim>\<open>enable\<close> set (with a working read) first reads CTRL and then writes \<open>c\<close> back with
  bit 0 cleared when \<open>v\<close> is zero and set when it is not, every other bit as in \<open>c\<close>;
  when the write goes through, CTRL holds that value, the call returns \<^verbatim>\<open>count\<close>, and a
  following \<^verbatim>\<open>enable\<close> get gives \<open>0\<close> or \<open>1\<close> accordingly. The inputs \<open>1\<close> and \<open>0\<close>
  parse to 1 and 0; the witness runs the scenario from CTRL = 0x00.
\<close>

theorem enable_store_read_modify_write:
  assumes "next_fault b = 0" and "regs b I2CSENS_REG_CTRL = c" and "sscanf_d buf = Some v"
    and "c' = (if v = 0 then c AND NOT 1 else c OR 1)"
    and "e = next_fault (b\<lparr>pending := tl (pending b)\<rparr>)"
    and "b' = snd (enable_store \<lparr>regmap = i2csens_regmap_config\<rparr> ctrl0 enable0 buf count b)"
  shows "issued b b' = [(XRead I2CSENS_REG_CTRL, 0), (XWrite I2CSENS_REG_CTRL c', e)] \<and>
         (bit c' 0 \<longleftrightarrow> v \<noteq> 0) \<and>
         (\<forall>n. 0 < n \<longrightarrow> (bit c' n \<longleftrightarrow> bit c n)) \<and>
         (e = 0 \<longrightarrow>
            regs b' = (regs b)(I2CSENS_REG_CTRL := c') \<and>
            fst (enable_store \<lparr>regmap = i2csens_regmap_config\<rparr> ctrl0 enable0 buf count b) = int count) \<and>
         (e = 0 \<and> next_fault b' = 0 \<longrightarrow>
            fst (enable_show \<lparr>regmap = i2csens_regmap_config\<rparr> e0 b') =
              (2, (if v = 0 then ''0'' else ''1'') @ [CHR 0x0A])) \<and>
         sscanf_d ''1'' = Some 1 \<and> sscanf_d ''0'' = Some 0"
proof -
  let ?dev = "\<lparr>regmap = i2csens_regmap_config\<rparr>"
  note st = enable_store_ok [OF assms(1) assms(3), of ctrl0 enable0 count]
  have b': "b' = b\<lparr>pending := tl (tl (pending b)),
            xlog := xlog b @ [(XRead I2CSENS_REG_CTRL, 0), (XWrite I2CSENS_REG_CTRL c', e)],
            regs := (if e = 0 then (regs b)(I2CSENS_REG_CTRL := c') else regs b)\<rparr>"
    unfolding assms(6) st using assms(2,4,5) by (simp add: Let_def)
  have 1: "issued b b' = [(XRead I2CSENS_REG_CTRL, 0), (XWrite I2CSENS_REG_CTRL c', e)]"
    unfolding b' by (simp add: issued_def)
  have clr: "\<forall>n. bit (c AND NOT 1) n \<longleftrightarrow> bit c n \<and> 0 < n"
    and set: "\<forall>n. bit (c OR 1) n \<longleftrightarrow> bit c n \<or> n = 0"
    by (simp_all only: bits_clear_en bits_set_en simp_thms)
  have 2: "bit c' 0 \<longleftrightarrow> v \<noteq> 0"
    using clr set unfolding assms(4) by (cases "v = 0") simp_all
  have 3: "\<forall>n. 0 < n \<longrightarrow> (bit c' n \<longleftrightarrow> bit c n)"
    using clr set unfolding assms(4) by (cases "v = 0") simp_all
  have 4: "e = 0 \<longrightarrow> regs b' = (regs b)(I2CSENS_REG_CTRL := c') \<and>
            fst (enable_store ?dev ctrl0 enable0 buf count b) = int count"
    unfolding st using b' assms(5) by (simp add: Let_def)
  have 5: "e = 0 \<and> next_fault b' = 0 \<longrightarrow>
            fst (enable_show ?dev e0 b') = (2, (if v = 0 then ''0'' else ''1'') @ [CHR 0x0A])"
  proof
    assume h: "e = 0 \<and> next_fault b' = 0"
    hence "regs b' I2CSENS_REG_CTRL = c'" using b' by simp
    thus "fst (enable_show ?dev e0 b') = (2, (if v = 0 then ''0'' else ''1'') @ [CHR 0x0A])"
      using h 2 by (simp add: enable_show_ok)
  qed
  from 1 2 3 4 5 sscanf_d_flags show ?thesis by blast
qed

theorem enable_store_read_modify_write_witness:
  "fst (enable_store \<lparr>regmap = i2csens_regmap_config\<rparr> 0 0 ''1'' 1
         \<lparr>regs = \<lambda>a. 0, pending = [], xlog = []\<rparr>) = 1 \<and>
   regs (snd (enable_store \<lparr>regmap = i2csens_regmap_config\<rparr> 0 0 ''1'' 1
         \<lparr>regs = \<lambda>a. 0, pending = [], xlog = []\<rparr>)) I2CSENS_REG_CTRL = 0x01 \<and>
   fst (enable_show \<lparr>regmap = i2csens_regmap_config\<rparr> 0
         (snd (enable_store \<lparr>regmap = i2csens_regmap_config\<rparr> 0 0 ''1'' 1
            \<lparr>regs = \<lambda>a. 0, pending = [], xlog = []\<rparr>))) = (2, ''1'' @ [CHR 0x0A]) \<and>
   regs (snd (enable_store \<lparr>regmap = i2csens_regmap_config\<rparr> 0 0 ''0'' 1
         \<lparr>regs = (\<lambda>a. 0)(1 := 0x01), pending = [], xlog = []\<rparr>)) I2CSENS_REG_CTRL = 0x00 \<and>
   fst (enable_show \<lparr>regmap = i2csens_regmap_config\<rparr> 0
         (snd (enable_store \<lparr>regmap = i2csens_regmap_config\<rparr> 0 0 ''0'' 1
            \<lparr>regs = (\<lambda>a. 0)(1 := 0x01), pending = [], xlog = []\<rparr>))) = (2, ''0'' @ [CHR 0x0A])"
proof -
  let ?dev = "\<lparr>regmap = i2csens_regmap_config\<rparr>"
  let ?b0 = "\<lparr>regs = \<lambda>a. 0 :: 8 word, pending = [], xlog = []\<rparr>"
  let ?b1 = "\<lparr>regs = (\<lambda>a. 0 :: 8 word)(1 := 0x01), pending = [], xlog = []\<rparr>"
  have f0: "next_fault ?b0 = 0" "next_fault ?b1 = 0" by (simp_all add: next_fault_def)
  have on: "sscanf_d ''1'' = Some 1" and off: "sscanf_d ''0'' = Some 0"
    by (simp_all add: sscanf_d_def isspace_def isdigit_def strtoull_def digit_val_def)
  have p0: "pending (snd (enable_store ?dev 0 0 ''1'' 1 ?b0)) = []"
    by (simp add: enable_store_ok [OF f0(1) on] Let_def)
  have p1: "pending (snd (enable_store ?dev 0 0 ''0'' 1 ?b1)) = []"
    by (simp add: enable_store_ok [OF f0(2) off] Let_def)
  have s1: "next_fault (snd (enable_store ?dev 0 0 ''1'' 1 ?b0)) = 0"
    using p0 by (simp add: next_fault_def)
  have s2: "next_fault (snd (enable_store ?dev 0 0 ''0'' 1 ?b1)) = 0"
    using p1 by (simp add: next_fault_def)
  show ?thesis
    using enable_store_read_modify_write [OF f0(1) refl on refl refl refl, of 0 0 1 0]
      enable_store_read_modify_write [OF f0(2) refl off refl refl refl, of 0 0 1 0] s1 s2
    by (simp add: next_fault_def I2CSENS_REG_CTRL_def)
qed

subsection \<open>The attributes on a failing bus\<close>

text \<open>
  Claim C4, at a failing input. The CTRL register holds 0x01 and the DATA register 100,
  and the bus fails the next transfer with error 5. \<^verbatim>\<open>enable_show\<close> and \<^verbatim>\<open>data_show\<close>
  do not test the status of \<^verbatim>\<open>regmap_read\<close>: each returns 2 and a text, here \<open>0\<close>,
  computed from the uninitialised local (taken as 0), where the claim has the get fail
  and no value returned.
\<close>

theorem show_ignores_read_failure:
  "enable_show \<lparr>regmap = i2csens_regmap_config\<rparr> 0
     \<lparr>regs = (\<lambda>a. 0)(0 := 0x5A, 1 := 0x01, 2 := 100), pending = [5], xlog = []\<rparr> =
     ((2, ''0'' @ [CHR 0x0A]),
      \<lparr>regs = (\<lambda>a. 0)(0 := 0x5A, 1 := 0x01, 2 := 100), pending = [],
        xlog = [(XRead I2CSENS_REG_CTRL, 5)]\<rparr>) \<and>
   data_show \<lparr>regmap = i2csens_regmap_config\<rparr> 0
     \<lparr>regs = (\<lambda>a. 0)(0 := 0x5A, 1 := 0x01, 2 := 100), pending = [5], xlog = []\<rparr> =
     ((2, ''0'' @ [CHR 0x0A]),
      \<lparr>regs = (\<lambda>a. 0)(0 := 0x5A, 1 := 0x01, 2 := 100), pending = [],
        xlog = [(XRead I2CSENS_REG_DATA, 5)]\<rparr>)"
  by (simp add: enable_show_def data_show_def regmap_read_ctrl regmap_read_data next_fault_def
      Let_def sprintf_flag CTRL_EN_MASK_def)

text \<open>
  Claim C5, at a failing input. CTRL holds 0xA4 and the bus fails the read with error 5,
  then works. \<^verbatim>\<open>enable_store\<close> does not test the status of the read: it sets bit 0 in
  the uninitialised local (taken as 0), writes the result 0x01 to CTRL, so that the other
  bits of CTRL are lost, and returns \<^verbatim>\<open>count\<close>, where the claim has the set fail
  without a write.
\<close>

theorem store_ignores_read_failure:
  "enable_store \<lparr>regmap = i2csens_regmap_config\<rparr> 0 0 ''1'' 1
     \<lparr>regs = (\<lambda>a. 0)(0 := 0x5A, 1 := 0xA4), pending = [5], xlog = []\<rparr> =
     (1, \<lparr>regs = (\<lambda>a. 0)(0 := 0x5A, 1 := 0x01), pending = [],
          xlog = [(XRead I2CSENS_REG_CTRL, 5), (XWrite I2CSENS_REG_CTRL 0x01, 0)]\<rparr>)"
  by (simp add: enable_store_def regmap_read_ctrl [unfolded I2CSENS_REG_CTRL_def]
      regmap_write_ctrl [unfolded I2CSENS_REG_CTRL_def] next_fault_def Let_def
      sscanf_d_flags CTRL_EN_MASK_def I2CSENS_REG_CTRL_def)

section \<open>Binding\<close>

text \<open>
  Against claim C1 as stated: not every probe reads the ID register. When
  \<^verbatim>\<open>devm_kzalloc\<close> returns no memory, probe returns \<^verbatim>\<open>-ENOMEM\<close> before any
  register access.
\<close>

theorem probe_without_id_read_counterexample:
  "\<not> (\<forall>env junk b. \<exists>e.
        (XRead I2CSENS_REG_ID, e) \<in> set (issued b (snd (i2csens_probe env junk b))))"
proof
  let ?env = "\<lparr>kzalloc_ok = False, regmap_init_errno = 0, sysfs_status = 0\<rparr>"
  let ?b = "\<lparr>regs = (\<lambda>a. 0)(0 := 0x5A), pending = [], xlog = []\<rparr>"
  assume "\<forall>env junk b. \<exists>e.
        (XRead I2CSENS_REG_ID, e) \<in> set (issued b (snd (i2csens_probe env junk b)))"
  then have "\<exists>e. (XRead I2CSENS_REG_ID, e) \<in> set (issued ?b (snd (i2csens_probe ?env 0 ?b)))"
    by blast
  then show False by (simp add: i2csens_probe_def issued_def)
qed

text \<open>
  Claim C1, amended. For every probe in which the private data and the register map are
  allocated, exactly the read of the ID register is issued. If that transfer fails,
  probe returns the (negative) bus error; if it succeeds with a value other than 0x5A,
  probe returns \<^verbatim>\<open>-ENODEV\<close> and logs the unexpected identity. In both cases the probe
  fails (the device is rejected) and the attribute group (\<^verbatim>\<open>enable\<close>, \<^verbatim>\<open>data\<close>) is
  not registered. A probe in which an allocation fails returns an error before any
  register access, the bus untouched and no attribute group registered.
\<close>

theorem probe_identity_check:
  assumes "r = fst (i2csens_probe env junk b)" and "b' = snd (i2csens_probe env junk b)"
  shows "(kzalloc_ok env \<and> regmap_init_errno env = 0 \<longrightarrow>
            issued b b' = [(XRead I2CSENS_REG_ID, next_fault b)] \<and>
            (next_fault b \<noteq> 0 \<longrightarrow>
               ret r = - int (next_fault b) \<and> ret r < 0 \<and> \<not> sysfs_group r \<and>
               klog r = [''error reading ID register'']) \<and>
            (next_fault b = 0 \<and> regs b I2CSENS_REG_ID \<noteq> 0x5A \<longrightarrow>
               ret r = - int ENODEV \<and> ret r < 0 \<and> \<not> sysfs_group r \<and>
               klog r = [''unexpected ID''])) \<and>
         (\<not> kzalloc_ok env \<or> regmap_init_errno env \<noteq> 0 \<longrightarrow>
            issued b b' = [] \<and> b' = b \<and> ret r < 0 \<and> \<not> sysfs_group r)"
proof (cases "kzalloc_ok env \<and> regmap_init_errno env = 0")
  case True
  thus ?thesis
    unfolding assms by (simp add: probe_reaches_read Let_def issued_def ENODEV_def)
next
  case False
  hence nb: "\<not> kzalloc_ok env \<or> regmap_init_errno env \<noteq> 0" by simp
  have "b' = b" unfolding assms(2) by (rule probe_no_alloc(1) [OF nb])
  moreover have "ret r < 0" unfolding assms(1) by (rule probe_no_alloc(2) [OF nb])
  moreover have "\<not> sysfs_group r" unfolding assms(1) by (rule probe_no_alloc(3) [OF nb])
  ultimately show ?thesis using nb by (auto simp add: issued_self)
qed

theorem probe_identity_check_witness:
  "issued \<lparr>regs = (\<lambda>a. 0)(0 := 0x5B), pending = [], xlog = []\<rparr>
     (snd (i2csens_probe \<lparr>kzalloc_ok = True, regmap_init_errno = 0, sysfs_status = 0\<rparr> 0
        \<lparr>regs = (\<lambda>a. 0)(0 := 0x5B), pending = [], xlog = []\<rparr>)) = [(XRead I2CSENS_REG_ID, 0)] \<and>
   ret (fst (i2csens_probe \<lparr>kzalloc_ok = True, regmap_init_errno = 0, sysfs_status = 0\<rparr> 0
        \<lparr>regs = (\<lambda>a. 0)(0 := 0x5B), pending = [], xlog = []\<rparr>)) = - 19 \<and>
   \<not> sysfs_group (fst (i2csens_probe \<lparr>kzalloc_ok = True, regmap_init_errno = 0, sysfs_status = 0\<rparr> 0
        \<lparr>regs = (\<lambda>a. 0)(0 := 0x5B), pending = [], xlog = []\<rparr>)) \<and>
   issued \<lparr>regs = (\<lambda>a. 0)(0 := 0x5A), pending = [6], xlog = []\<rparr>
     (snd (i2csens_probe \<lparr>kzalloc_ok = True, regmap_init_errno = 0, sysfs_status = 0\<rparr> 0
        \<lparr>regs = (\<lambda>a. 0)(0 := 0x5A), pending = [6], xlog = []\<rparr>)) = [(XRead I2CSENS_REG_ID, 6)] \<and>
   ret (fst (i2csens_probe \<lparr>kzalloc_ok = True, regmap_init_errno = 0, sysfs_status = 0\<rparr> 0
        \<lparr>regs = (\<lambda>a. 0)(0 := 0x5A), pending = [6], xlog = []\<rparr>)) = - 6 \<and>
   \<not> sysfs_group (fst (i2csens_probe \<lparr>kzalloc_ok = True, regmap_init_errno = 0, sysfs_status = 0\<rparr> 0
        \<lparr>regs = (\<lambda>a. 0)(0 := 0x5A), pending = [6], xlog = []\<rparr>)) \<and>
   issued \<lparr>regs = (\<lambda>a. 0)(0 := 0x5A), pending = [], xlog = []\<rparr>
     (snd (i2csens_probe \<lparr>kzalloc_ok = False, regmap_init_errno = 0, sysfs_status = 0\<rparr> 0
        \<lparr>regs = (\<lambda>a. 0)(0 := 0x5A), pending = [], xlog = []\<rparr>)) = [] \<and>
   ret (fst (i2csens_probe \<lparr>kzalloc_ok = False, regmap_init_errno = 0, sysfs_status = 0\<rparr> 0
        \<lparr>regs = (\<lambda>a. 0)(0 := 0x5A), pending = [], xlog = []\<rparr>)) < 0"
proof -
  let ?env = "\<lparr>kzalloc_ok = True, regmap_init_errno = 0, sysfs_status = 0\<rparr>"
  let ?nomem = "\<lparr>kzalloc_ok = False, regmap_init_errno = 0, sysfs_status = 0\<rparr>"
  show ?thesis
    using probe_identity_check [where env = ?env and junk = 0
          and b = "\<lparr>regs = (\<lambda>a. 0)(0 := 0x5B), pending = [], xlog = []\<rparr>", OF refl refl]
      probe_identity_check [where env = ?env and junk = 0
          and b = "\<lparr>regs = (\<lambda>a. 0)(0 := 0x5A), pending = [6], xlog = []\<rparr>", OF refl refl]
      probe_identity_check [where env = ?nomem and junk = 0
          and b = "\<lparr>regs = (\<lambda>a. 0)(0 := 0x5A), pending = [], xlog = []\<rparr>", OF refl refl]
    by (simp add: next_fault_def I2CSENS_REG_ID_def ENODEV_def issued_self)
qed




text \<open>
  Against claim C10 as stated: probe does not always issue exactly one transfer. When
  \<^verbatim>\<open>devm_kzalloc\<close> returns no memory it issues none.
\<close>

theorem probe_not_always_one_transfer_counterexample:
  "\<not> (\<forall>env junk b. \<exists>e.
        issued b (snd (i2csens_probe env junk b)) = [(XRead I2CSENS_REG_ID, e)])"
proof
  let ?env = "\<lparr>kzalloc_ok = False, regmap_init_errno = 0, sysfs_status = 0\<rparr>"
  let ?b = "\<lparr>regs = (\<lambda>a. 0 :: 8 word)(0 := 0x5A), pending = [], xlog = []\<rparr>"
  assume "\<forall>env junk b. \<exists>e.
        issued b (snd (i2csens_probe env junk b)) = [(XRead I2CSENS_REG_ID, e)]"
  then have "\<exists>e. issued ?b (snd (i2csens_probe ?env 0 ?b)) = [(XRead I2CSENS_REG_ID, e)]"
    by blast
  then show False by (simp add: i2csens_probe_def issued_def)
qed

text \<open>
  Claim C10, amended. Probe never writes: in every run the registers of the device are
  after probe what they were before, and no write is among the transfers issued. Once
  the private data and the register map are allocated, probe issues exactly one
  transfer, the read of the ID register, whether it fails on the bus, rejects the
  identity or succeeds; when an allocation fails it issues none.
\<close>

theorem probe_frame:
  assumes "r = fst (i2csens_probe env junk b)" and "b' = snd (i2csens_probe env junk b)"
  shows "regs b' = regs b \<and>
         filter (\<lambda>x. is_write (fst x)) (issued b b') = [] \<and>
         (kzalloc_ok env \<and> regmap_init_errno env = 0 \<longrightarrow>
            issued b b' = [(XRead I2CSENS_REG_ID, next_fault b)] \<and>
            ret r = (if next_fault b \<noteq> 0 then - int (next_fault b)
                     else if regs b I2CSENS_REG_ID \<noteq> 0x5A then - int ENODEV else 0)) \<and>
         (\<not> kzalloc_ok env \<or> regmap_init_errno env \<noteq> 0 \<longrightarrow> issued b b' = [])"
proof (cases "kzalloc_ok env \<and> regmap_init_errno env = 0")
  case False
  hence nb: "\<not> kzalloc_ok env \<or> regmap_init_errno env \<noteq> 0" by simp
  have "b' = b" unfolding assms(2) by (rule probe_no_alloc(1) [OF nb])
  thus ?thesis using nb by (auto simp add: issued_self)
next
  case True
  thus ?thesis
    unfolding assms(1,2) by (simp add: probe_reaches_read Let_def issued_def)
qed

theorem probe_frame_witness:
  "regs (snd (i2csens_probe \<lparr>kzalloc_ok = True, regmap_init_errno = 0, sysfs_status = 0\<rparr> 0
        \<lparr>regs = (\<lambda>a. 0)(0 := 0x5A, 1 := 0x81, 2 := 0x2A), pending = [], xlog = []\<rparr>)) =
     (\<lambda>a. 0)(0 := 0x5A, 1 := 0x81, 2 := 0x2A) \<and>
   ret (fst (i2csens_probe \<lparr>kzalloc_ok = True, regmap_init_errno = 0, sysfs_status = 0\<rparr> 0
        \<lparr>regs = (\<lambda>a. 0)(0 := 0x5A, 1 := 0x81, 2 := 0x2A), pending = [], xlog = []\<rparr>)) = 0 \<and>
   issued \<lparr>regs = (\<lambda>a. 0)(0 := 0x5A, 1 := 0x81, 2 := 0x2A), pending = [], xlog = []\<rparr>
     (snd (i2csens_probe \<lparr>kzalloc_ok = True, regmap_init_errno = 0, sysfs_status = 0\<rparr> 0
        \<lparr>regs = (\<lambda>a. 0)(0 := 0x5A, 1 := 0x81, 2 := 0x2A), pending = [], xlog = []\<rparr>)) =
     [(XRead I2CSENS_REG_ID, 0)] \<and>
   issued \<lparr>regs = (\<lambda>a. 0)(0 := 0x5A, 1 := 0x81, 2 := 0x2A), pending = [], xlog = []\<rparr>
     (snd (i2csens_probe \<lparr>kzalloc_ok = True, regmap_init_errno = 12, sysfs_status = 0\<rparr> 0
        \<lparr>regs = (\<lambda>a. 0)(0 := 0x5A, 1 := 0x81, 2 := 0x2A), pending = [], xlog = []\<rparr>)) = []"
proof -
  let ?env = "\<lparr>kzalloc_ok = True, regmap_init_errno = 0, sysfs_status = 0\<rparr>"
  let ?bad = "\<lparr>kzalloc_ok = True, regmap_init_errno = 12, sysfs_status = 0\<rparr>"
  let ?b = "\<lparr>regs = (\<lambda>a. 0 :: 8 word)(0 := 0x5A, 1 := 0x81, 2 := 0x2A), pending = [], xlog = []\<rparr>"
  show ?thesis
    using probe_frame [OF refl refl, of ?env 0 ?b] probe_frame [OF refl refl, of ?bad 0 ?b]
    by (simp add: next_fault_def I2CSENS_REG_ID_def issued_self)
qed

end
